theory Spec2Isabelle
  imports Complex_Main
begin

section \<open>Data model of the stream session orchestrator (src/src/index.ts)\<close>

text \<open>
  The orchestrator is the class \<open>ExampleAugmentOSApp\<close>. It keeps two JavaScript
  \<open>Map\<close>s keyed by user id: \<open>activeUserStates\<close> (one mutable \<open>UserStreamState\<close>
  object per connected user) and \<open>persistentUserSettings\<close>. The asynchronous methods
  capture the \<open>UserStreamState\<close> object in a local variable and keep writing to it
  after an \<open>await\<close>, so the objects live in an explicit store: the registry maps a user id
  to a reference, and the store maps a reference to the object. Deleting a registry
  entry leaves the object in the store, where a pending continuation still reaches it.
\<close>

type_synonym userId = string
type_synonym TpaSession = nat
type_synonym ref = nat
type_synonym time = nat

datatype StreamMode = Rtmp | Hls | Simulation

text \<open>
  \<open>RtmpStreamStatus\<close> is declared by the SDK. The code reads and writes its fields
  \<open>type\<close>, \<open>status\<close>, \<open>errorDetails\<close> and \<open>timestamp\<close>; every other property of a
  pushed event (stats and the like) is copied by the object spread and kept in \<open>rs_rest\<close>.
  The declared type of \<open>type\<close> is the single constant \<open>RTMP_STREAM_STATUS\<close>.
\<close>

datatype GlassesToCloudMessageType = RTMP_STREAM_STATUS | OTHER_MESSAGE_TYPE string

record RtmpStreamStatus =
  rs_type :: GlassesToCloudMessageType
  rs_status :: string
  rs_errorDetails :: "string option"
  rs_timestamp :: time
  rs_rest :: "(string \<times> string) list"

record UserStreamState =
  us_rtmpUrl :: string
  us_streamStatus :: RtmpStreamStatus
  us_session :: TpaSession
  us_faceHighlightingEnabled :: "bool option"
  us_hlsUrl :: "string option"
  us_streamMode :: "StreamMode option"

record UserPersistentSettings =
  ps_rtmpUrl :: string
  ps_streamMode :: "StreamMode option"
  ps_faceHighlightingEnabled :: "bool option"

text \<open>
  \<open>Partial<UserPersistentSettings>\<close>: an object literal may carry a key whose value is
  \<open>undefined\<close> (\<open>startStreamForUser\<close> passes \<open>faceHighlightingEnabled: highlightFaces\<close>
  with \<open>highlightFaces\<close> possibly undefined), and the spread then overwrites the stored
  value with \<open>undefined\<close>. So a key is absent, or present with an optional value. No
  caller in the repository passes the \<open>rtmpUrl\<close> key with an undefined value.
\<close>

datatype 'a key = KeyAbsent | KeyPresent "'a option"

record PartialSettings =
  p_rtmpUrl :: "string option"
  p_streamMode :: "StreamMode key"
  p_faceHighlightingEnabled :: "bool key"

record ExampleAugmentOSApp =
  heap :: "ref \<Rightarrow> UserStreamState"
  next_ref :: ref
  activeUserStates :: "userId \<rightharpoonup> ref"
  persistentUserSettings :: "userId \<rightharpoonup> UserPersistentSettings"

text \<open>The body of the POST to the face recognition server (\<open>configBody\<close>).\<close>

record configBody =
  detect_every :: nat
  similarity_threshold :: rat
  output_hls :: "bool option"
  output_rtmp :: "string option"

text \<open>
  What the code sends to the outside: display text and stream commands on a session
  handle, the configuration request to the face recognition server, and
  \<open>console.warn\<close>. (\<open>console.log\<close> and \<open>console.error\<close> are left out. The media
  parameters of \<open>requestStream\<close> are the same constants at every call.)
\<close>

datatype effect =
    ShowTextWall TpaSession string
  | RequestStream TpaSession string
  | StopStream TpaSession
  | FetchConfig string configBody
  | ConsoleWarn string

text \<open>
  Every \<open>throw\<close> of the class, named after the spec's taxonomy:
  \<open>NoActiveSession\<close> is "No active session for user to start/stop stream ...",
  \<open>InvalidUrl\<close> is "RTMP URL must be a non-empty string",
  \<open>HighlightConfigError m\<close> is the error with message \<open>m\<close> thrown by the \<open>catch\<close>
  around the configuration request,
  \<open>UnsupportedModeCombination\<close> is "HLS mode requires face highlighting to be enabled",
  \<open>TransportError m\<close> is the rejection of \<open>requestStream\<close>/\<open>stopStream\<close>, rethrown.
\<close>

datatype error =
    NoActiveSession
  | InvalidUrl
  | HighlightConfigError string
  | UnsupportedModeCombination
  | TransportError string

text \<open>
  An \<open>async\<close> method runs until its next \<open>await\<close> on an external promise and is then
  resumed with the promise's result; other handlers run in between. The local
  variables that the rest of \<open>startStreamForUser\<close> still reads are kept in \<open>start_ctx\<close>.
\<close>

record start_ctx =
  c_userId :: userId
  c_userState :: ref
  c_mode :: StreamMode
  c_streamKey :: string

datatype pending =
    AwaitFetch start_ctx
  | AwaitJson start_ctx
  | AwaitRequestStream ref
  | AwaitStopStream ref

datatype outcome = Returned | Threw error | Suspended pending

datatype fetch_outcome = FetchRejected string | FetchResponse bool string

text \<open>
  The parsed response: \<open>JsonObject u\<close> is an object whose \<open>output_url\<close> is the string
  \<open>u\<close> or is missing; \<open>JsonRejected m\<close> is a rejected \<open>json()\<close>, or a result on which the
  property access throws.
\<close>

datatype json_outcome = JsonRejected string | JsonObject "string option"

datatype transport_outcome = Resolved | Rejected string

type_synonym step = "outcome \<times> effect list \<times> ExampleAugmentOSApp"

definition outcome_of :: "step \<Rightarrow> outcome" where
  "outcome_of x = fst x"

definition effects_of :: "step \<Rightarrow> effect list" where
  "effects_of x = fst (snd x)"

definition state_of :: "step \<Rightarrow> ExampleAugmentOSApp" where
  "state_of x = snd (snd x)"

section \<open>Helpers of the JavaScript semantics\<close>

text \<open>Truthiness of an optional string: \<open>undefined\<close> and the empty string are falsy.\<close>

definition truthy_str :: "string option \<Rightarrow> bool" where
  "truthy_str x = (case x of None \<Rightarrow> False | Some u \<Rightarrow> u \<noteq> [])"

definition truthy_bool :: "bool option \<Rightarrow> bool" where
  "truthy_bool x = (x = Some True)"

text \<open>\<open>s.startsWith(p)\<close>\<close>

definition startsWith :: "string \<Rightarrow> string \<Rightarrow> bool" where
  "startsWith s p = (take (length p) s = p)"

definition defaultRtmpUrl :: string where
  "defaultRtmpUrl = ''rtmp://0.0.0.0/s/streamKey''"

definition getInitialStreamStatus :: "time \<Rightarrow> RtmpStreamStatus" where
  "getInitialStreamStatus now =
     \<lparr>rs_type = RTMP_STREAM_STATUS, rs_status = ''stopped'', rs_errorDetails = None,
      rs_timestamp = now, rs_rest = []\<rparr>"

text \<open>
  \<open>{ ...this.getInitialStreamStatus(), status: 'error', errorDetails: error.message,
  timestamp: new Date() }\<close>
\<close>

definition errorStatus :: "string \<Rightarrow> time \<Rightarrow> RtmpStreamStatus" where
  "errorStatus msg now =
     (getInitialStreamStatus now)
       \<lparr>rs_status := ''error'', rs_errorDetails := Some msg, rs_timestamp := now\<rparr>"

text \<open>Writing a field of the object behind a reference.\<close>

definition modify :: "ref \<Rightarrow> (UserStreamState \<Rightarrow> UserStreamState) \<Rightarrow>
    ExampleAugmentOSApp \<Rightarrow> ExampleAugmentOSApp" where
  "modify r f s = s\<lparr>heap := (heap s)(r := f (heap s r))\<rparr>"

section \<open>The stream key\<close>

text \<open>
  \<open>`user_${userId.replace(/[@]/g, '_')}`\<close>, in \<open>startStreamForUser\<close> and, with the same
  expression, in the routes \<open>/api/faces\<close> and \<open>/api/faces/rename\<close>.
\<close>

definition replace_at :: "string \<Rightarrow> string" where
  "replace_at userId = map (\<lambda>c. if c = CHR ''@'' then CHR ''_'' else c) userId"

definition streamKey :: "userId \<Rightarrow> string" where
  "streamKey userId = ''user_'' @ replace_at userId"

definition faces_route_streamKey :: "userId \<Rightarrow> string" where
  "faces_route_streamKey userId = ''user_'' @ replace_at userId"

definition faces_rename_route_streamKey :: "userId \<Rightarrow> string" where
  "faces_rename_route_streamKey userId = ''user_'' @ replace_at userId"

section \<open>Settings\<close>

definition updatePersistentSettingsForUser ::
    "ExampleAugmentOSApp \<Rightarrow> userId \<Rightarrow> PartialSettings \<Rightarrow> ExampleAugmentOSApp" where
  "updatePersistentSettingsForUser s userId settings =
     (let existingSettings =
            (case persistentUserSettings s userId of
               Some e \<Rightarrow> e
             | None \<Rightarrow> \<lparr>ps_rtmpUrl = defaultRtmpUrl, ps_streamMode = None,
                        ps_faceHighlightingEnabled = None\<rparr>);
          updatedSettings =
            \<lparr>ps_rtmpUrl = (case p_rtmpUrl settings of
                             None \<Rightarrow> ps_rtmpUrl existingSettings | Some u \<Rightarrow> u),
             ps_streamMode = (case p_streamMode settings of
                             KeyAbsent \<Rightarrow> ps_streamMode existingSettings | KeyPresent v \<Rightarrow> v),
             ps_faceHighlightingEnabled = (case p_faceHighlightingEnabled settings of
                             KeyAbsent \<Rightarrow> ps_faceHighlightingEnabled existingSettings
                           | KeyPresent v \<Rightarrow> v)\<rparr>;
          s1 = s\<lparr>persistentUserSettings := (persistentUserSettings s)(userId \<mapsto> updatedSettings)\<rparr>
      in case activeUserStates s1 userId of
           None \<Rightarrow> s1
         | Some r \<Rightarrow>
             modify r (\<lambda>userState.
               let u1 = (case p_streamMode settings of
                           KeyPresent (Some m) \<Rightarrow> userState\<lparr>us_streamMode := Some m\<rparr>
                         | _ \<Rightarrow> userState);
                   u2 = (case p_faceHighlightingEnabled settings of
                           KeyPresent (Some b) \<Rightarrow> u1\<lparr>us_faceHighlightingEnabled := Some b\<rparr>
                         | _ \<Rightarrow> u1)
               in (case p_rtmpUrl settings of
                     Some u \<Rightarrow> u2\<lparr>us_rtmpUrl := u\<rparr>
                   | None \<Rightarrow> u2)) s1)"

text \<open>
  \<open>setRtmpUrlForUser\<close> returns nothing or throws; the result is the thrown error, if
  any, with the effects and the new state.
\<close>

definition setRtmpUrlForUser ::
    "ExampleAugmentOSApp \<Rightarrow> userId \<Rightarrow> string \<Rightarrow> error option \<times> effect list \<times> ExampleAugmentOSApp" where
  "setRtmpUrlForUser s userId newUrl =
     (if newUrl = [] then (Some InvalidUrl, [], s)
      else
        let warn = (if \<not> startsWith newUrl ''rtmp://'' \<and> \<not> startsWith newUrl ''rtmps://''
                    then [ConsoleWarn (''Warning: RTMP URL for user '' @ userId @
                                       '' does not start with rtmp:// or rtmps://'')]
                    else []);
            existingSettings =
              (case persistentUserSettings s userId of
                 Some e \<Rightarrow> e
               | None \<Rightarrow> \<lparr>ps_rtmpUrl = defaultRtmpUrl, ps_streamMode = None,
                          ps_faceHighlightingEnabled = None\<rparr>);
            s1 = s\<lparr>persistentUserSettings :=
                     (persistentUserSettings s)(userId \<mapsto> existingSettings\<lparr>ps_rtmpUrl := newUrl\<rparr>)\<rparr>
        in case activeUserStates s1 userId of
             Some r \<Rightarrow>
               (None,
                warn @ [ShowTextWall (us_session (heap s1 r)) (''RTMP URL updated to: '' @ newUrl)],
                modify r (\<lambda>userState. userState\<lparr>us_rtmpUrl := newUrl\<rparr>) s1)
           | None \<Rightarrow> (None, warn, s1))"

section \<open>Readers\<close>

text \<open>
  \<open>this.activeUserStates.get(userId)?.streamStatus || this.getInitialStreamStatus()\<close>,
  with the declared return type \<open>RtmpStreamStatus | undefined\<close>. A stored status is an
  object, hence truthy.
\<close>

definition getStreamStatusForUser ::
    "ExampleAugmentOSApp \<Rightarrow> userId \<Rightarrow> time \<Rightarrow> RtmpStreamStatus option" where
  "getStreamStatusForUser s userId now =
     (case map_option (\<lambda>r. us_streamStatus (heap s r)) (activeUserStates s userId) of
        Some st \<Rightarrow> Some st
      | None \<Rightarrow> Some (getInitialStreamStatus now))"

definition getHlsUrlForUser :: "ExampleAugmentOSApp \<Rightarrow> userId \<Rightarrow> string option" where
  "getHlsUrlForUser s userId =
     (case activeUserStates s userId of
        None \<Rightarrow> None
      | Some r \<Rightarrow> us_hlsUrl (heap s r))"

definition getStreamModeForUser :: "ExampleAugmentOSApp \<Rightarrow> userId \<Rightarrow> StreamMode" where
  "getStreamModeForUser s userId =
     (let fromState =
            (case activeUserStates s userId of
               None \<Rightarrow> Hls
             | Some r \<Rightarrow> (case us_streamMode (heap s r) of Some m \<Rightarrow> m | None \<Rightarrow> Hls))
      in case persistentUserSettings s userId of
           None \<Rightarrow> fromState
         | Some p \<Rightarrow> (case ps_streamMode p of Some m \<Rightarrow> m | None \<Rightarrow> fromState))"

section \<open>startStreamForUser\<close>

text \<open>
  Lines 324 to 337: the write of the URL in use, the display text and the stream
  request, up to the \<open>await\<close> of \<open>requestStream\<close>. The object is the one captured in
  \<open>userState\<close>; the registry is not consulted.
\<close>

definition start_tail ::
    "ExampleAugmentOSApp \<Rightarrow> ref \<Rightarrow> StreamMode \<Rightarrow> bool option \<Rightarrow> string \<Rightarrow> step" where
  "start_tail s userState mode highlightFaces urlToUse =
     (let s1 = modify userState (\<lambda>st. st\<lparr>us_rtmpUrl := urlToUse\<rparr>) s;
          streamModeText =
            (if mode = Hls then ''Starting stream with face highlighting (HLS)...''
             else if truthy_bool highlightFaces
                  then ''Starting stream with face highlighting (RTMP)...''
                  else ''Starting RTMP stream...'');
          session = us_session (heap s1 userState)
      in (Suspended (AwaitRequestStream userState),
          [ShowTextWall session streamModeText, RequestStream session urlToUse],
          s1))"

text \<open>From the call to the first \<open>await\<close> (or to the return or throw before it).\<close>

definition startStreamForUser ::
    "ExampleAugmentOSApp \<Rightarrow> userId \<Rightarrow> string option \<Rightarrow> bool option \<Rightarrow> StreamMode option \<Rightarrow> step" where
  "startStreamForUser s userId rtmpUrl highlightFaces0 streamMode =
     (case activeUserStates s userId of
        None \<Rightarrow> (Threw NoActiveSession, [], s)
      | Some userState \<Rightarrow>
          let mode = (case streamMode of Some m \<Rightarrow> m | None \<Rightarrow> Hls);
              s1 = modify userState (\<lambda>st. st\<lparr>us_streamMode := Some mode\<rparr>) s
          in if mode = Simulation then
               let s2 = modify userState
                          (\<lambda>st. st\<lparr>us_faceHighlightingEnabled := highlightFaces0\<rparr>) s1;
                   s3 = updatePersistentSettingsForUser s2 userId
                          \<lparr>p_rtmpUrl = None, p_streamMode = KeyPresent (Some mode),
                           p_faceHighlightingEnabled = KeyPresent highlightFaces0\<rparr>
               in (Returned, [], s3)
             else
               let highlightFaces = (if mode = Hls then Some True else highlightFaces0);
                   stateOrDefault =
                     (if us_rtmpUrl (heap s1 userState) \<noteq> [] then us_rtmpUrl (heap s1 userState)
                      else defaultRtmpUrl);
                   urlToUse =
                     (case rtmpUrl of
                        Some u \<Rightarrow> (if u \<noteq> [] then u else stateOrDefault)
                      | None \<Rightarrow> stateOrDefault);
                   s2 = modify userState
                          (\<lambda>st. st\<lparr>us_faceHighlightingEnabled := highlightFaces\<rparr>) s1;
                   s3 = updatePersistentSettingsForUser s2 userId
                          \<lparr>p_rtmpUrl = None, p_streamMode = KeyPresent (Some mode),
                           p_faceHighlightingEnabled = KeyPresent highlightFaces\<rparr>
               in if truthy_bool highlightFaces then
                    let body = \<lparr>detect_every = 5, similarity_threshold = 3 / 10,
                                output_hls = (if mode = Hls then Some True else None),
                                output_rtmp = (if mode = Hls then None else Some urlToUse)\<rparr>
                    in (Suspended (AwaitFetch \<lparr>c_userId = userId, c_userState = userState,
                                               c_mode = mode, c_streamKey = streamKey userId\<rparr>),
                        [FetchConfig (streamKey userId) body],
                        s3)
                  else if mode = Hls then (Threw UnsupportedModeCombination, [], s3)
                  else start_tail s3 userState mode highlightFaces urlToUse)"

text \<open>
  Resumed with the result of \<open>fetch\<close>. A rejection and a response that is not \<open>ok\<close>
  both end in the \<open>catch\<close>, which throws a new error around the message.
\<close>

definition startStream_fetch_done ::
    "start_ctx \<Rightarrow> fetch_outcome \<Rightarrow> ExampleAugmentOSApp \<Rightarrow> step" where
  "startStream_fetch_done c r s =
     (case r of
        FetchRejected msg \<Rightarrow>
          (Threw (HighlightConfigError (''Failed to configure face recognition: '' @ msg)), [], s)
      | FetchResponse ok statusText \<Rightarrow>
          if \<not> ok then
            (Threw (HighlightConfigError
               (''Failed to configure face recognition: '' @
                ''Failed to configure face recognition: '' @ statusText)), [], s)
          else (Suspended (AwaitJson c), [], s))"

text \<open>Resumed with the result of \<open>configResponse.json()\<close>: lines 298 to 337.\<close>

definition startStream_json_done ::
    "start_ctx \<Rightarrow> json_outcome \<Rightarrow> ExampleAugmentOSApp \<Rightarrow> step" where
  "startStream_json_done c r s =
     (case r of
        JsonRejected msg \<Rightarrow>
          (Threw (HighlightConfigError (''Failed to configure face recognition: '' @ msg)), [], s)
      | JsonObject output_url \<Rightarrow>
          let s1 = (if truthy_str output_url \<and> c_mode c = Hls
                    then modify (c_userState c) (\<lambda>st. st\<lparr>us_hlsUrl := output_url\<rparr>) s
                    else s);
              urlToUse = ''rtmp://stream.okgodoit.com/live/'' @ c_streamKey c
          in start_tail s1 (c_userState c) (c_mode c) (Some True) urlToUse)"

text \<open>Resumed with the result of \<open>requestStream\<close>: lines 338 to 346.\<close>

definition startStream_request_done ::
    "ref \<Rightarrow> transport_outcome \<Rightarrow> time \<Rightarrow> ExampleAugmentOSApp \<Rightarrow> step" where
  "startStream_request_done userState r now s =
     (case r of
        Resolved \<Rightarrow> (Returned, [], s)
      | Rejected msg \<Rightarrow>
          (Threw (TransportError msg),
           [ShowTextWall (us_session (heap s userState)) (''Failed to start stream: '' @ msg)],
           modify userState (\<lambda>st. st\<lparr>us_streamStatus := errorStatus msg now\<rparr>) s))"

section \<open>stopStreamForUser\<close>

definition stopStreamForUser :: "ExampleAugmentOSApp \<Rightarrow> userId \<Rightarrow> step" where
  "stopStreamForUser s userId =
     (case activeUserStates s userId of
        None \<Rightarrow> (Threw NoActiveSession, [], s)
      | Some userState \<Rightarrow>
          (Suspended (AwaitStopStream userState),
           [ShowTextWall (us_session (heap s userState)) ''Stopping RTMP stream via web...'',
            StopStream (us_session (heap s userState))],
           s))"

definition stopStream_done ::
    "ref \<Rightarrow> transport_outcome \<Rightarrow> time \<Rightarrow> ExampleAugmentOSApp \<Rightarrow> step" where
  "stopStream_done userState r now s =
     (case r of
        Resolved \<Rightarrow> (Returned, [], s)
      | Rejected msg \<Rightarrow>
          (Threw (TransportError msg),
           [ShowTextWall (us_session (heap s userState)) (''Failed to stop stream: '' @ msg)],
           modify userState (\<lambda>st. st\<lparr>us_streamStatus := errorStatus msg now\<rparr>) s))"

section \<open>Session handlers\<close>

text \<open>
  \<open>onSession\<close>: a new \<open>UserStreamState\<close> object is allocated from the persistent settings
  and stored under the user id, replacing any entry there. (\<open>sessionId\<close> is only logged.)
\<close>

definition onSession ::
    "ExampleAugmentOSApp \<Rightarrow> TpaSession \<Rightarrow> userId \<Rightarrow> time \<Rightarrow> effect list \<times> ExampleAugmentOSApp" where
  "onSession s session userId now =
     (let persistentSettings = persistentUserSettings s userId;
          userRtmpUrl = (case persistentSettings of
                           Some p \<Rightarrow> (if ps_rtmpUrl p \<noteq> [] then ps_rtmpUrl p else defaultRtmpUrl)
                         | None \<Rightarrow> defaultRtmpUrl);
          userStreamMode = (case persistentSettings of
                              Some p \<Rightarrow> (case ps_streamMode p of Some m \<Rightarrow> m | None \<Rightarrow> Hls)
                            | None \<Rightarrow> Hls);
          userFaceHighlighting =
            (case persistentSettings of
               Some p \<Rightarrow> (case ps_faceHighlightingEnabled p of Some b \<Rightarrow> b | None \<Rightarrow> True)
             | None \<Rightarrow> True);
          userState = \<lparr>us_rtmpUrl = userRtmpUrl,
                       us_streamStatus = getInitialStreamStatus now,
                       us_session = session,
                       us_faceHighlightingEnabled = Some userFaceHighlighting,
                       us_hlsUrl = None,
                       us_streamMode = Some userStreamMode\<rparr>;
          r = next_ref s
      in ([ShowTextWall session ''Photo & Streaming App Ready! Face highlighting available.''],
          s\<lparr>heap := (heap s)(r := userState),
            next_ref := Suc r,
            activeUserStates := (activeUserStates s)(userId \<mapsto> r)\<rparr>))"

text \<open>
  The \<open>onStatus\<close> callback registered by \<open>onSession\<close> for \<open>userId\<close> on \<open>session\<close>. It
  looks the state up again by user id.
\<close>

definition onStatus ::
    "ExampleAugmentOSApp \<Rightarrow> userId \<Rightarrow> TpaSession \<Rightarrow> RtmpStreamStatus \<Rightarrow> time \<Rightarrow>
       effect list \<times> ExampleAugmentOSApp" where
  "onStatus s userId session status now =
     (case activeUserStates s userId of
        Some currentUserState \<Rightarrow>
          let s1 = modify currentUserState
                     (\<lambda>st. st\<lparr>us_streamStatus := status\<lparr>rs_timestamp := now\<rparr>\<rparr>) s
          in if rs_status status = ''initializing'' then
               ([ShowTextWall session ''Stream is initializing...''], s1)
             else if rs_status status = ''active'' then
               ([ShowTextWall session ''Stream is active and running!''], s1)
             else if rs_status status = ''error'' then
               ([ShowTextWall session
                   (''Stream error: '' @
                    (case rs_errorDetails status of None \<Rightarrow> ''undefined'' | Some d \<Rightarrow> d))], s1)
             else if rs_status status = ''stopped'' then
               ([ShowTextWall session ''Stream has stopped''],
                modify currentUserState
                  (\<lambda>st. st\<lparr>us_streamStatus :=
                            (us_streamStatus st)\<lparr>rs_type := RTMP_STREAM_STATUS,
                                                 rs_status := ''stopped''\<rparr>\<rparr>) s1)
             else ([], s1)
      | None \<Rightarrow>
          ([ConsoleWarn (''Received stream status for a user with no active state object: '' @ userId)],
           s))"

definition onDisconnected :: "ExampleAugmentOSApp \<Rightarrow> userId \<Rightarrow> ExampleAugmentOSApp" where
  "onDisconnected s userId = s\<lparr>activeUserStates := (activeUserStates s)(userId := None)\<rparr>"

section \<open>The whole call when nothing runs in between\<close>

text \<open>
  \<open>startStreamForUser\<close> from call to completion, given the results of the three awaited
  promises, when no other handler runs while it is suspended.
\<close>

definition startStreamForUser_uninterrupted ::
    "ExampleAugmentOSApp \<Rightarrow> userId \<Rightarrow> string option \<Rightarrow> bool option \<Rightarrow> StreamMode option \<Rightarrow>
       fetch_outcome \<Rightarrow> json_outcome \<Rightarrow> transport_outcome \<Rightarrow> time \<Rightarrow> step" where
  "startStreamForUser_uninterrupted s userId rtmpUrl highlightFaces streamMode fo jo to now =
     (case startStreamForUser s userId rtmpUrl highlightFaces streamMode of
        (Suspended (AwaitFetch c), e1, s1) \<Rightarrow>
          (case startStream_fetch_done c fo s1 of
             (Suspended (AwaitJson c'), e2, s2) \<Rightarrow>
               (case startStream_json_done c' jo s2 of
                  (Suspended (AwaitRequestStream r), e3, s3) \<Rightarrow>
                    (case startStream_request_done r to now s3 of
                       (out, e4, s4) \<Rightarrow> (out, e1 @ e2 @ e3 @ e4, s4))
                | (out, e3, s3) \<Rightarrow> (out, e1 @ e2 @ e3, s3))
           | (out, e2, s2) \<Rightarrow> (out, e1 @ e2, s2))
      | (Suspended (AwaitRequestStream r), e1, s1) \<Rightarrow>
          (case startStream_request_done r to now s1 of
             (out, e4, s4) \<Rightarrow> (out, e1 @ e4, s4))
      | (out, e1, s1) \<Rightarrow> (out, e1, s1))"

section \<open>The stop-stream routes of the web layer\<close>

text \<open>
  A route replies 401, replies success with a message, replies 500 with a message, or
  is suspended in the \<open>await\<close> of the orchestrator's method.
\<close>

datatype reply = Unauthorized | Success string | Failure string

text \<open>
  \<open>error.message\<close> of an error caught by a stop-stream route. \<open>stopStreamForUser\<close>
  throws its own no-active-session error or rethrows the rejection of \<open>stopStream\<close>;
  the other errors are not thrown on this path and are given with their texts.
\<close>

fun stop_error_message :: "error \<Rightarrow> string" where
  "stop_error_message NoActiveSession =
     ''No active session for user to stop stream. Please ensure glasses are connected and paired.''"
| "stop_error_message InvalidUrl = ''RTMP URL must be a non-empty string''"
| "stop_error_message (HighlightConfigError m) = m"
| "stop_error_message UnsupportedModeCombination =
     ''HLS mode requires face highlighting to be enabled''"
| "stop_error_message (TransportError m) = m"

datatype route_outcome = Replied reply | Awaiting pending

type_synonym route_step = "route_outcome \<times> effect list \<times> ExampleAugmentOSApp"

text \<open>
  The \<open>try\<close>/\<open>catch\<close> around \<open>await exampleApp.stopStreamForUser(userId)\<close>; the
  reply to an error is \<open>error.message || 'Failed to stop stream for user.'\<close>.
\<close>

definition stop_route_try :: "step \<Rightarrow> route_step" where
  "stop_route_try x =
     (case x of
        (Returned, effs, s) \<Rightarrow> (Replied (Success ''Stream stop requested for user.''), effs, s)
      | (Threw e, effs, s) \<Rightarrow>
          (Replied (Failure (if stop_error_message e \<noteq> [] then stop_error_message e
                             else ''Failed to stop stream for user.'')), effs, s)
      | (Suspended p, effs, s) \<Rightarrow> (Awaiting p, effs, s))"

text \<open>\<open>/api/stop-stream\<close> in src/src/webview.ts.\<close>

definition api_stop_stream_webview ::
    "ExampleAugmentOSApp \<Rightarrow> string option \<Rightarrow> route_step" where
  "api_stop_stream_webview s authUserId =
     (case authUserId of
        None \<Rightarrow> (Replied Unauthorized, [], s)
      | Some userId \<Rightarrow>
          if userId = [] then (Replied Unauthorized, [], s)
          else stop_route_try (stopStreamForUser s userId))"

text \<open>
  \<open>/api/stop-stream\<close> in src/unnamed/part_000: the user id falls back to a fixed
  address, and the route answers by itself when the user's mode is simulation.
\<close>

definition api_stop_stream_part_000 ::
    "ExampleAugmentOSApp \<Rightarrow> string option \<Rightarrow> route_step" where
  "api_stop_stream_part_000 s authUserId =
     (let userId = (case authUserId of
                      Some u \<Rightarrow> (if u \<noteq> [] then u else ''alex1115alex@gmail.com'')
                    | None \<Rightarrow> ''alex1115alex@gmail.com'')
      in if userId = [] then (Replied Unauthorized, [], s)
         else if getStreamModeForUser s userId = Simulation then
           (Replied (Success ''Demo mode stopped - disconnected from sample content.''), [], s)
         else stop_route_try (stopStreamForUser s userId))"

text \<open>Either route, resumed with the result of \<open>stopStream\<close>.\<close>

definition api_stop_stream_done ::
    "ref \<Rightarrow> transport_outcome \<Rightarrow> time \<Rightarrow> ExampleAugmentOSApp \<Rightarrow> route_step" where
  "api_stop_stream_done userState r now s = stop_route_try (stopStream_done userState r now s)"

section \<open>Sequences of handler runs\<close>

text \<open>
  The event loop runs one handler, or one continuation of a suspended call, at a time.
  An \<open>event\<close> is one such run; \<open>fire\<close> gives the state after it and \<open>run\<close> the state
  after a sequence of them.
\<close>

datatype event =
    Connect TpaSession userId time
  | Disconnect userId
  | StatusPush userId TpaSession RtmpStreamStatus time
  | SetRtmpUrl userId string
  | UpdateSettings userId PartialSettings
  | Start userId "string option" "bool option" "StreamMode option"
  | FetchDone start_ctx fetch_outcome
  | JsonDone start_ctx json_outcome
  | RequestDone ref transport_outcome time
  | Stop userId
  | StopDone ref transport_outcome time

fun fire :: "event \<Rightarrow> ExampleAugmentOSApp \<Rightarrow> ExampleAugmentOSApp" where
  "fire (Connect session userId now) s = snd (onSession s session userId now)"
| "fire (Disconnect userId) s = onDisconnected s userId"
| "fire (StatusPush userId session status now) s = snd (onStatus s userId session status now)"
| "fire (SetRtmpUrl userId newUrl) s = snd (snd (setRtmpUrlForUser s userId newUrl))"
| "fire (UpdateSettings userId settings) s = updatePersistentSettingsForUser s userId settings"
| "fire (Start userId rtmpUrl highlightFaces streamMode) s =
     state_of (startStreamForUser s userId rtmpUrl highlightFaces streamMode)"
| "fire (FetchDone c r) s = state_of (startStream_fetch_done c r s)"
| "fire (JsonDone c r) s = state_of (startStream_json_done c r s)"
| "fire (RequestDone userState r now) s = state_of (startStream_request_done userState r now s)"
| "fire (Stop userId) s = state_of (stopStreamForUser s userId)"
| "fire (StopDone userState r now) s = state_of (stopStream_done userState r now s)"

fun run :: "event list \<Rightarrow> ExampleAugmentOSApp \<Rightarrow> ExampleAugmentOSApp" where
  "run [] s = s"
| "run (e # es) s = run es (fire e s)"

text \<open>
  The events that are neither a connect nor a disconnect, and among them those that
  are not the continuation of an HLS-mode start receiving the service's answer.
\<close>

fun within_session :: "event \<Rightarrow> bool" where
  "within_session (Connect session userId now) = False"
| "within_session (Disconnect userId) = False"
| "within_session e = True"

fun keeps_hlsUrl :: "event \<Rightarrow> bool" where
  "keeps_hlsUrl (Connect session userId now) = False"
| "keeps_hlsUrl (Disconnect userId) = False"
| "keeps_hlsUrl (JsonDone c r) = (c_mode c \<noteq> Hls)"
| "keeps_hlsUrl e = True"

section \<open>Concrete states\<close>

text \<open>The state after the constructor: both maps empty, nothing allocated.\<close>

definition blankState :: UserStreamState where
  "blankState =
     \<lparr>us_rtmpUrl = [], us_streamStatus = getInitialStreamStatus 0, us_session = 0,
      us_faceHighlightingEnabled = None, us_hlsUrl = None, us_streamMode = None\<rparr>"

definition initialApp :: ExampleAugmentOSApp where
  "initialApp =
     \<lparr>heap = (\<lambda>r. blankState), next_ref = 0, activeUserStates = Map.empty,
      persistentUserSettings = Map.empty\<rparr>"

text \<open>
  Scenario D of the spec: \<open>u4\<close> connects on session 4, starts an HLS stream and is
  disconnected while the configuration request is awaited.
\<close>

definition scenarioD_connected :: ExampleAugmentOSApp where
  "scenarioD_connected = snd (onSession initialApp 4 ''u4'' 100)"

definition scenarioD_ctx :: start_ctx where
  "scenarioD_ctx =
     \<lparr>c_userId = ''u4'', c_userState = 0, c_mode = Hls, c_streamKey = ''user_u4''\<rparr>"

definition scenarioD_awaiting :: ExampleAugmentOSApp where
  "scenarioD_awaiting =
     state_of (startStreamForUser scenarioD_connected ''u4'' None None (Some Hls))"

definition scenarioD_disconnected :: ExampleAugmentOSApp where
  "scenarioD_disconnected = onDisconnected scenarioD_awaiting ''u4''"

definition scenarioD_resumed :: step where
  "scenarioD_resumed =
     startStream_json_done scenarioD_ctx (JsonObject (Some ''https://svc/hls/u4.m3u8''))
       scenarioD_disconnected"

text \<open>
  Scenario C of the spec: \<open>u3\<close> connects on session 3 and starts in simulation mode;
  later the session is disconnected.
\<close>

definition scenarioC_connected :: ExampleAugmentOSApp where
  "scenarioC_connected = snd (onSession initialApp 3 ''u3'' 100)"

definition scenarioC_simulation :: ExampleAugmentOSApp where
  "scenarioC_simulation =
     state_of (startStreamForUser scenarioC_connected ''u3'' None (Some True) (Some Simulation))"

definition scenarioC_disconnected :: ExampleAugmentOSApp where
  "scenarioC_disconnected = onDisconnected scenarioC_simulation ''u3''"

text \<open>
  Scenario A of the spec: \<open>u1\<close> connects on session 1 and starts an HLS stream, the
  service answers with a playback URL and the stream becomes active. Later the stream is
  stopped, started again in RTMP mode without highlighting, the settings are changed,
  and the stream is stopped once more.
\<close>

definition scenarioA_ctx :: start_ctx where
  "scenarioA_ctx =
     \<lparr>c_userId = ''u1'', c_userState = 0, c_mode = Hls, c_streamKey = ''user_u1''\<rparr>"

definition pushed :: "string \<Rightarrow> RtmpStreamStatus" where
  "pushed st =
     \<lparr>rs_type = RTMP_STREAM_STATUS, rs_status = st, rs_errorDetails = None,
      rs_timestamp = 0, rs_rest = [(''stats'', ''bitrate=2000000'')]\<rparr>"

text \<open>
  A pushed \<open>stopped\<close> event that carries another message type and error details left
  over from an earlier state.
\<close>

definition stoppedOtherType :: RtmpStreamStatus where
  "stoppedOtherType =
     (pushed ''stopped'')
       \<lparr>rs_type := OTHER_MESSAGE_TYPE ''stream_status'', rs_errorDetails := Some ''left over''\<rparr>"

definition scenarioA_streaming :: ExampleAugmentOSApp where
  "scenarioA_streaming =
     run [Connect 1 ''u1'' 100,
          Start ''u1'' None None (Some Hls),
          FetchDone scenarioA_ctx (FetchResponse True ''OK''),
          JsonDone scenarioA_ctx (JsonObject (Some ''https://svc/hls/u1.m3u8'')),
          RequestDone 0 Resolved 110,
          StatusPush ''u1'' 1 (pushed ''active'') 120]
       initialApp"

definition scenarioA_later :: "event list" where
  "scenarioA_later =
     [Stop ''u1'',
      StopDone 0 Resolved 130,
      Start ''u1'' (Some ''rtmp://dest/x'') (Some False) (Some Rtmp),
      RequestDone 0 Resolved 140,
      SetRtmpUrl ''u1'' ''rtmp://dest/y'',
      UpdateSettings ''u1''
        \<lparr>p_rtmpUrl = None, p_streamMode = KeyAbsent,
         p_faceHighlightingEnabled = KeyPresent (Some False)\<rparr>,
      Stop ''u1'',
      StopDone 0 (Rejected ''refused'') 150,
      StatusPush ''u1'' 1 (pushed ''stopped'') 160]"

section \<open>Frame lemmas\<close>

lemmas model_defs =
  initialApp_def blankState_def onSession_def onDisconnected_def onStatus_def
  startStreamForUser_def startStream_fetch_done_def startStream_json_done_def
  startStream_request_done_def start_tail_def stopStreamForUser_def stopStream_done_def
  updatePersistentSettingsForUser_def setRtmpUrlForUser_def modify_def
  getInitialStreamStatus_def errorStatus_def defaultRtmpUrl_def streamKey_def replace_at_def
  truthy_str_def truthy_bool_def startsWith_def
  outcome_of_def effects_of_def state_of_def Let_def

lemma modify_simps:
  "heap (modify r f s) = (heap s)(r := f (heap s r))"
  "next_ref (modify r f s) = next_ref s"
  "activeUserStates (modify r f s) = activeUserStates s"
  "persistentUserSettings (modify r f s) = persistentUserSettings s"
  by (simp_all add: modify_def)

lemma step_projections:
  "outcome_of (a, b, c) = a" "effects_of (a, b, c) = b" "state_of (a, b, c) = c"
  by (simp_all add: outcome_of_def effects_of_def state_of_def)

lemma updatePersistent_active:
  "activeUserStates (updatePersistentSettingsForUser s u p) = activeUserStates s"
  by (simp add: updatePersistentSettingsForUser_def Let_def modify_simps split: option.split)

lemma updatePersistent_hlsUrl:
  "us_hlsUrl (heap (updatePersistentSettingsForUser s u p) r) = us_hlsUrl (heap s r)"
  by (simp add: updatePersistentSettingsForUser_def Let_def modify_simps
      split: option.split key.split)

lemma updatePersistent_session:
  "us_session (heap (updatePersistentSettingsForUser s u p) r) = us_session (heap s r)"
  by (simp add: updatePersistentSettingsForUser_def Let_def modify_simps
      split: option.split key.split)

lemma start_tail_frame:
  "outcome_of (start_tail s r mode hl url) = Suspended (AwaitRequestStream r)"
  "activeUserStates (state_of (start_tail s r mode hl url)) = activeUserStates s"
  "persistentUserSettings (state_of (start_tail s r mode hl url)) = persistentUserSettings s"
  "us_hlsUrl (heap (state_of (start_tail s r mode hl url)) q) = us_hlsUrl (heap s q)"
  "us_session (heap (state_of (start_tail s r mode hl url)) q) = us_session (heap s q)"
  by (simp_all add: start_tail_def Let_def step_projections modify_simps)

lemma startStream_session:
  "us_session (heap (state_of (startStreamForUser s u url hl m)) q) = us_session (heap s q)"
  by (simp add: startStreamForUser_def Let_def step_projections modify_simps
      updatePersistent_session start_tail_frame split: option.split)

lemma startStream_active:
  "activeUserStates (state_of (startStreamForUser s u url hl m)) = activeUserStates s"
  by (simp add: startStreamForUser_def Let_def step_projections modify_simps
      updatePersistent_active start_tail_frame split: option.split)

lemma startStream_hlsUrl:
  "us_hlsUrl (heap (state_of (startStreamForUser s u url hl m)) q) = us_hlsUrl (heap s q)"
  by (simp add: startStreamForUser_def Let_def step_projections modify_simps
      updatePersistent_hlsUrl start_tail_frame split: option.split)

lemma startStream_AwaitFetch:
  assumes "startStreamForUser s u url hl m = (Suspended (AwaitFetch c), effs, s1)"
  shows "activeUserStates s u = Some (c_userState c) \<and> c_userId c = u
         \<and> c_streamKey c = streamKey u \<and> c_mode c \<noteq> Simulation"
  using assms
  by (auto simp add: startStreamForUser_def Let_def start_tail_def
      split: option.splits if_splits)

lemma setRtmpUrl_frame:
  "activeUserStates (snd (snd (setRtmpUrlForUser s u url))) = activeUserStates s"
  "us_hlsUrl (heap (snd (snd (setRtmpUrlForUser s u url))) q) = us_hlsUrl (heap s q)"
  by (simp_all add: setRtmpUrlForUser_def Let_def modify_simps split: option.split)

lemma onStatus_frame:
  "activeUserStates (snd (onStatus s u session status now)) = activeUserStates s"
  "us_hlsUrl (heap (snd (onStatus s u session status now)) q) = us_hlsUrl (heap s q)"
  by (simp_all add: onStatus_def Let_def modify_simps split: option.split)

lemma fetch_done_state: "state_of (startStream_fetch_done c r s) = s"
  by (simp add: startStream_fetch_done_def step_projections split: fetch_outcome.split)

lemma json_done_active:
  "activeUserStates (state_of (startStream_json_done c r s)) = activeUserStates s"
  by (simp add: startStream_json_done_def Let_def step_projections start_tail_frame modify_simps
      split: json_outcome.split)

lemma json_done_hlsUrl:
  "c_mode c \<noteq> Hls \<Longrightarrow>
   us_hlsUrl (heap (state_of (startStream_json_done c r s)) q) = us_hlsUrl (heap s q)"
  by (simp add: startStream_json_done_def Let_def step_projections start_tail_frame
      split: json_outcome.split)

lemma json_done_hlsUrl_set:
  "us_hlsUrl (heap s q) \<noteq> None \<Longrightarrow>
   us_hlsUrl (heap (state_of (startStream_json_done c r s)) q) \<noteq> None"
  by (auto simp add: startStream_json_done_def Let_def step_projections start_tail_frame
      modify_simps truthy_str_def split: json_outcome.split option.splits)

lemma request_done_frame:
  "activeUserStates (state_of (startStream_request_done r x now s)) = activeUserStates s"
  "us_hlsUrl (heap (state_of (startStream_request_done r x now s)) q) = us_hlsUrl (heap s q)"
  by (simp_all add: startStream_request_done_def step_projections modify_simps
      split: transport_outcome.split)

lemma stop_frame:
  "state_of (stopStreamForUser s u) = s"
  "activeUserStates (state_of (stopStream_done r x now s)) = activeUserStates s"
  "us_hlsUrl (heap (state_of (stopStream_done r x now s)) q) = us_hlsUrl (heap s q)"
  by (simp_all add: stopStreamForUser_def stopStream_done_def step_projections modify_simps
      split: transport_outcome.split option.split)

lemma fire_keeps_hlsUrl:
  assumes "keeps_hlsUrl e"
  shows "activeUserStates (fire e s) = activeUserStates s"
    and "us_hlsUrl (heap (fire e s) q) = us_hlsUrl (heap s q)"
  using assms
  by (cases e; simp add: onStatus_frame setRtmpUrl_frame updatePersistent_active
      updatePersistent_hlsUrl startStream_active startStream_hlsUrl fetch_done_state
      json_done_active json_done_hlsUrl request_done_frame stop_frame)+

lemma fire_within_session:
  assumes "within_session e"
  shows "activeUserStates (fire e s) = activeUserStates s"
    and "us_hlsUrl (heap s q) \<noteq> None \<Longrightarrow> us_hlsUrl (heap (fire e s) q) \<noteq> None"
  using assms
  by (cases e; simp add: onStatus_frame setRtmpUrl_frame updatePersistent_active
      updatePersistent_hlsUrl startStream_active startStream_hlsUrl fetch_done_state
      json_done_active json_done_hlsUrl_set request_done_frame stop_frame)+

lemma run_keeps_hlsUrl:
  "\<forall>e\<in>set es. keeps_hlsUrl e \<Longrightarrow>
   activeUserStates (run es s) = activeUserStates s
   \<and> us_hlsUrl (heap (run es s) q) = us_hlsUrl (heap s q)"
  by (induction es arbitrary: s) (simp_all add: fire_keeps_hlsUrl)

lemma run_within_session:
  "\<forall>e\<in>set es. within_session e \<Longrightarrow> us_hlsUrl (heap s q) \<noteq> None \<Longrightarrow>
   activeUserStates (run es s) = activeUserStates s
   \<and> us_hlsUrl (heap (run es s) q) \<noteq> None"
proof (induction es arbitrary: s)
  case Nil
  then show ?case by simp
next
  case (Cons e es)
  from Cons.prems have e: "within_session e" and es: "\<forall>e\<in>set es. within_session e"
    by simp_all
  have "us_hlsUrl (heap (fire e s) q) \<noteq> None"
    using fire_within_session(2) [OF e] Cons.prems(2) by blast
  with Cons.IH [OF es, of "fire e s"] fire_within_session(1) [OF e, of s]
  show ?case by simp
qed

section \<open>Start while the session is removed\<close>

text \<open>
  C1, as the code has it. Take any call of \<open>startStreamForUser\<close> that is suspended in
  the request to the face recognition server, and let the user's registry entry be
  deleted by \<open>onDisconnected\<close> meanwhile. The continuation never looks the registry up
  again: it goes on to the JSON body, writes the URL in use to the object it captured
  (which the registry no longer holds), and writes the playback URL there too when the
  mode is HLS and the service returned one (otherwise the object keeps the playback URL
  it had). It shows the text and requests the stream on that object's session, and is
  suspended in \<open>requestStream\<close>; it does not throw the no-active-session error. The
  registry keeps no entry for the user and the persistent settings stay as they were.
  If the transport then rejects, the failure text is shown, the error status is written
  to the captured object, the transport's error is thrown, and the registry still has no
  entry and the persistent settings are still as they were.
\<close>

theorem startStream_continues_after_disconnect:
  assumes "startStreamForUser s userId rtmpUrl highlightFaces streamMode
             = (Suspended (AwaitFetch c), effs, s1)"
      and "s2 = onDisconnected s1 userId"
      and "x = startStream_json_done c (JsonObject output_url) s2"
      and "y = startStream_request_done (c_userState c) (Rejected msg) now (state_of x)"
  shows "activeUserStates s userId = Some (c_userState c)
    \<and> activeUserStates s2 userId = None
    \<and> startStream_fetch_done c (FetchResponse True statusText) s2
        = (Suspended (AwaitJson c), [], s2)
    \<and> outcome_of x = Suspended (AwaitRequestStream (c_userState c))
    \<and> effects_of x
        = [ShowTextWall (us_session (heap s (c_userState c)))
             (if c_mode c = Hls then ''Starting stream with face highlighting (HLS)...''
              else ''Starting stream with face highlighting (RTMP)...''),
           RequestStream (us_session (heap s (c_userState c)))
             (''rtmp://stream.okgodoit.com/live/'' @ streamKey userId)]
    \<and> activeUserStates (state_of x) userId = None
    \<and> persistentUserSettings (state_of x) = persistentUserSettings s1
    \<and> us_rtmpUrl (heap (state_of x) (c_userState c))
        = ''rtmp://stream.okgodoit.com/live/'' @ streamKey userId
    \<and> us_hlsUrl (heap (state_of x) (c_userState c))
        = (if truthy_str output_url \<and> c_mode c = Hls then output_url
           else us_hlsUrl (heap s (c_userState c)))
    \<and> outcome_of y = Threw (TransportError msg)
    \<and> effects_of y
        = [ShowTextWall (us_session (heap s (c_userState c))) (''Failed to start stream: '' @ msg)]
    \<and> activeUserStates (state_of y) userId = None
    \<and> persistentUserSettings (state_of y) = persistentUserSettings s1
    \<and> us_streamStatus (heap (state_of y) (c_userState c)) = errorStatus msg now
    \<and> us_rtmpUrl (heap (state_of y) (c_userState c))
        = ''rtmp://stream.okgodoit.com/live/'' @ streamKey userId
    \<and> us_hlsUrl (heap (state_of y) (c_userState c))
        = (if truthy_str output_url \<and> c_mode c = Hls then output_url
           else us_hlsUrl (heap s (c_userState c)))"
proof -
  have c: "c_userId c = userId" "c_streamKey c = streamKey userId"
    "activeUserStates s userId = Some (c_userState c)"
    using startStream_AwaitFetch [OF assms(1)] by simp_all
  have sess: "us_session (heap s1 q) = us_session (heap s q)" for q
    using startStream_session [of s userId rtmpUrl highlightFaces streamMode q] assms(1)
    by (simp add: step_projections)
  have hls: "us_hlsUrl (heap s1 q) = us_hlsUrl (heap s q)" for q
    using startStream_hlsUrl [of s userId rtmpUrl highlightFaces streamMode q] assms(1)
    by (simp add: step_projections)
  show ?thesis
    unfolding assms(2,3,4)
    by (simp add: c sess hls onDisconnected_def startStream_fetch_done_def
        startStream_json_done_def startStream_request_done_def start_tail_def Let_def
        step_projections modify_simps truthy_bool_def)
qed

theorem startStream_continues_after_disconnect_witness:
  "startStreamForUser scenarioD_connected ''u4'' None None (Some Hls)
     = (Suspended (AwaitFetch scenarioD_ctx),
        effects_of (startStreamForUser scenarioD_connected ''u4'' None None (Some Hls)),
        scenarioD_awaiting)
   \<and> activeUserStates scenarioD_connected ''u4'' = Some 0
   \<and> activeUserStates scenarioD_disconnected ''u4'' = None
   \<and> outcome_of scenarioD_resumed = Suspended (AwaitRequestStream 0)
   \<and> effects_of scenarioD_resumed
       = [ShowTextWall 4 ''Starting stream with face highlighting (HLS)...'',
          RequestStream 4 ''rtmp://stream.okgodoit.com/live/user_u4'']
   \<and> activeUserStates (state_of scenarioD_resumed) ''u4'' = None
   \<and> us_hlsUrl (heap (state_of scenarioD_resumed) 0) = Some ''https://svc/hls/u4.m3u8''
   \<and> us_streamStatus (heap (state_of
        (startStream_request_done 0 (Rejected ''refused'') 200 (state_of scenarioD_resumed))) 0)
       = errorStatus ''refused'' 200"
proof -
  have h: "startStreamForUser scenarioD_connected ''u4'' None None (Some Hls)
     = (Suspended (AwaitFetch scenarioD_ctx),
        effects_of (startStreamForUser scenarioD_connected ''u4'' None None (Some Hls)),
        scenarioD_awaiting)"
    by (simp add: scenarioD_awaiting_def scenarioD_connected_def scenarioD_ctx_def model_defs)
  have s: "us_session (heap scenarioD_connected 0) = 4"
    by (simp add: scenarioD_connected_def model_defs)
  show ?thesis
    using h s
      startStream_continues_after_disconnect
        [where output_url = "Some ''https://svc/hls/u4.m3u8''" and msg = "''refused''"
           and now = 200 and statusText = "''OK''", OF h refl refl refl]
    by (simp add: scenarioD_resumed_def scenarioD_disconnected_def scenarioD_ctx_def
        streamKey_def replace_at_def truthy_str_def)
qed

text \<open>
  Scenario D run on the code: after the disconnect the continuation still requests the
  stream on session 4 and is suspended in the request, rather than throwing the
  no-active-session error; the URL is written to the captured object; and when the
  transport rejects, the status of that object becomes \<open>error\<close>.
\<close>

theorem scenarioD_stream_requested:
  "activeUserStates scenarioD_connected ''u4'' = Some 0
   \<and> outcome_of (startStreamForUser scenarioD_connected ''u4'' None None (Some Hls))
       = Suspended (AwaitFetch scenarioD_ctx)
   \<and> activeUserStates scenarioD_disconnected ''u4'' = None
   \<and> outcome_of (startStream_fetch_done scenarioD_ctx (FetchResponse True ''OK'')
        scenarioD_disconnected) = Suspended (AwaitJson scenarioD_ctx)
   \<and> outcome_of scenarioD_resumed = Suspended (AwaitRequestStream 0)
   \<and> outcome_of scenarioD_resumed \<noteq> Threw NoActiveSession
   \<and> effects_of scenarioD_resumed
       = [ShowTextWall 4 ''Starting stream with face highlighting (HLS)...'',
          RequestStream 4 ''rtmp://stream.okgodoit.com/live/user_u4'']
   \<and> us_rtmpUrl (heap (state_of scenarioD_resumed) 0) = ''rtmp://stream.okgodoit.com/live/user_u4''
   \<and> us_hlsUrl (heap (state_of scenarioD_resumed) 0) = Some ''https://svc/hls/u4.m3u8''
   \<and> rs_status (us_streamStatus (heap (state_of
        (startStream_request_done 0 (Rejected ''refused'') 200 (state_of scenarioD_resumed))) 0))
       = ''error''"
  by (simp add: scenarioD_resumed_def scenarioD_disconnected_def scenarioD_awaiting_def
      scenarioD_connected_def scenarioD_ctx_def model_defs)

section \<open>Stop and the simulation mode\<close>

text \<open>
  C2, as the code has it. \<open>stopStreamForUser\<close> does not look at the stream mode: without
  a registry entry it throws the no-active-session error and does nothing else; with one
  it shows the text and issues the stop command on the session, whatever the mode. The
  answer without a transport call for a user in simulation mode is given by the
  \<open>/api/stop-stream\<close> route of src/unnamed/part_000, which asks \<open>getStreamModeForUser\<close>
  (persistent settings first) and replies success without calling \<open>stopStreamForUser\<close>,
  whether or not a registry entry exists; for every other mode it passes the call on, as
  the route of src/src/webview.ts always does.
\<close>

theorem stopStream_ignores_mode:
  "(activeUserStates s userId = None \<longrightarrow>
      stopStreamForUser s userId = (Threw NoActiveSession, [], s))
   \<and> (activeUserStates s userId = Some r \<longrightarrow>
        stopStreamForUser s userId =
          (Suspended (AwaitStopStream r),
           [ShowTextWall (us_session (heap s r)) ''Stopping RTMP stream via web...'',
            StopStream (us_session (heap s r))], s))
   \<and> (userId \<noteq> [] \<and> getStreamModeForUser s userId = Simulation \<longrightarrow>
        api_stop_stream_part_000 s (Some userId) =
          (Replied (Success ''Demo mode stopped - disconnected from sample content.''), [], s))
   \<and> (userId \<noteq> [] \<and> getStreamModeForUser s userId \<noteq> Simulation \<longrightarrow>
        api_stop_stream_part_000 s (Some userId) = stop_route_try (stopStreamForUser s userId))
   \<and> (userId \<noteq> [] \<longrightarrow>
        api_stop_stream_webview s (Some userId) = stop_route_try (stopStreamForUser s userId))"
  by (simp add: stopStreamForUser_def api_stop_stream_part_000_def api_stop_stream_webview_def
      Let_def)

theorem stopStream_ignores_mode_witness:
  "activeUserStates initialApp ''u3'' = None
   \<and> stopStreamForUser initialApp ''u3'' = (Threw NoActiveSession, [], initialApp)
   \<and> getStreamModeForUser initialApp ''u3'' \<noteq> Simulation
   \<and> api_stop_stream_part_000 initialApp (Some ''u3'')
       = (Replied (Failure
            ''No active session for user to stop stream. Please ensure glasses are connected and paired.''),
          [], initialApp)
   \<and> activeUserStates scenarioC_simulation ''u3'' = Some 0
   \<and> stopStreamForUser scenarioC_simulation ''u3''
       = (Suspended (AwaitStopStream 0),
          [ShowTextWall 3 ''Stopping RTMP stream via web...'', StopStream 3],
          scenarioC_simulation)
   \<and> getStreamModeForUser scenarioC_simulation ''u3'' = Simulation
   \<and> api_stop_stream_part_000 scenarioC_simulation (Some ''u3'')
       = (Replied (Success ''Demo mode stopped - disconnected from sample content.''), [],
          scenarioC_simulation)
   \<and> api_stop_stream_webview scenarioC_simulation (Some ''u3'')
       = (Awaiting (AwaitStopStream 0),
          [ShowTextWall 3 ''Stopping RTMP stream via web...'', StopStream 3],
          scenarioC_simulation)"
proof -
  have a: "activeUserStates initialApp ''u3'' = None"
    and b: "getStreamModeForUser initialApp ''u3'' \<noteq> Simulation"
    by (simp_all add: initialApp_def getStreamModeForUser_def)
  have c: "activeUserStates scenarioC_simulation ''u3'' = Some 0"
    and d: "getStreamModeForUser scenarioC_simulation ''u3'' = Simulation"
    and e: "us_session (heap scenarioC_simulation 0) = 3"
    by (simp_all add: scenarioC_simulation_def scenarioC_connected_def getStreamModeForUser_def
        model_defs)
  show ?thesis
    using a b c d e
      stopStream_ignores_mode [of initialApp "''u3''" 0]
      stopStream_ignores_mode [of scenarioC_simulation "''u3''" 0]
    by (simp add: stop_route_try_def)
qed

text \<open>
  On the code, for \<open>u3\<close> connected in simulation mode, \<open>stopStreamForUser\<close> shows the
  text and issues the stop command on session 3, directly and through the route of
  src/src/webview.ts. And once \<open>u3\<close> is disconnected, with simulation still the mode
  of the persistent settings, the route of src/unnamed/part_000 replies success although
  no registry entry exists.
\<close>

theorem stopStream_simulation_issues_commands:
  "activeUserStates scenarioC_simulation ''u3'' = Some 0
   \<and> us_streamMode (heap scenarioC_simulation 0) = Some Simulation
   \<and> getStreamModeForUser scenarioC_simulation ''u3'' = Simulation
   \<and> stopStreamForUser scenarioC_simulation ''u3''
       = (Suspended (AwaitStopStream 0),
          [ShowTextWall 3 ''Stopping RTMP stream via web...'', StopStream 3],
          scenarioC_simulation)
   \<and> api_stop_stream_webview scenarioC_simulation (Some ''u3'')
       = (Awaiting (AwaitStopStream 0),
          [ShowTextWall 3 ''Stopping RTMP stream via web...'', StopStream 3],
          scenarioC_simulation)
   \<and> activeUserStates scenarioC_disconnected ''u3'' = None
   \<and> api_stop_stream_part_000 scenarioC_disconnected (Some ''u3'')
       = (Replied (Success ''Demo mode stopped - disconnected from sample content.''), [],
          scenarioC_disconnected)"
  by (simp add: scenarioC_disconnected_def scenarioC_simulation_def scenarioC_connected_def
      getStreamModeForUser_def api_stop_stream_webview_def api_stop_stream_part_000_def
      stop_route_try_def model_defs)

section \<open>HLS mode forces face highlighting\<close>

text \<open>
  C4. Let the user have a registry entry and let the requested mode be \<open>hls\<close> or absent
  (which defaults to \<open>hls\<close>), with any requested highlighting flag. Then the part of
  \<open>startStreamForUser\<close> before the first \<open>await\<close> does not throw: it is suspended in the
  configuration request, and the user's state object and persistent settings both have
  \<open>faceHighlightingEnabled = true\<close>. When the call then runs to its end, whatever the
  service and the transport answer, it does not throw the mode-combination error (nor
  the no-active-session error), and both flags are still \<open>true\<close>.
\<close>

theorem startStream_hls_forces_highlighting:
  assumes "activeUserStates s userId = Some r"
      and "streamMode = None \<or> streamMode = Some Hls"
      and "x = startStreamForUser s userId rtmpUrl highlightFaces streamMode"
      and "y = startStreamForUser_uninterrupted s userId rtmpUrl highlightFaces streamMode
                 fo jo to now"
  shows "outcome_of x = Suspended (AwaitFetch
             \<lparr>c_userId = userId, c_userState = r, c_mode = Hls, c_streamKey = streamKey userId\<rparr>)
    \<and> us_faceHighlightingEnabled (heap (state_of x) r) = Some True
    \<and> map_option ps_faceHighlightingEnabled (persistentUserSettings (state_of x) userId)
        = Some (Some True)
    \<and> outcome_of y \<noteq> Threw UnsupportedModeCombination
    \<and> outcome_of y \<noteq> Threw NoActiveSession
    \<and> activeUserStates (state_of y) userId = Some r
    \<and> us_faceHighlightingEnabled (heap (state_of y) r) = Some True
    \<and> map_option ps_faceHighlightingEnabled (persistentUserSettings (state_of y) userId)
        = Some (Some True)"
proof -
  define c where "c = \<lparr>c_userId = userId, c_userState = r, c_mode = Hls,
    c_streamKey = streamKey userId\<rparr>"
  obtain effs s1 where x: "x = (Suspended (AwaitFetch c), effs, s1)"
    and s1: "activeUserStates s1 userId = Some r"
         "us_faceHighlightingEnabled (heap s1 r) = Some True"
         "map_option ps_faceHighlightingEnabled (persistentUserSettings s1 userId)
            = Some (Some True)"
    using assms(1,2,3)
    by (auto simp add: c_def startStreamForUser_def Let_def modify_simps truthy_bool_def
        updatePersistentSettingsForUser_def split: option.splits)
  have y: "y = (case startStream_fetch_done c fo s1 of
             (Suspended (AwaitJson c'), e2, s2) \<Rightarrow>
               (case startStream_json_done c' jo s2 of
                  (Suspended (AwaitRequestStream r), e3, s3) \<Rightarrow>
                    (case startStream_request_done r to now s3 of
                       (out, e4, s4) \<Rightarrow> (out, effs @ e2 @ e3 @ e4, s4))
                | (out, e3, s3) \<Rightarrow> (out, effs @ e2 @ e3, s3))
           | (out, e2, s2) \<Rightarrow> (out, effs @ e2, s2))"
    using x assms(3,4) by (simp add: startStreamForUser_uninterrupted_def)
  have "outcome_of y \<noteq> Threw UnsupportedModeCombination
    \<and> outcome_of y \<noteq> Threw NoActiveSession
    \<and> activeUserStates (state_of y) userId = Some r
    \<and> us_faceHighlightingEnabled (heap (state_of y) r) = Some True
    \<and> map_option ps_faceHighlightingEnabled (persistentUserSettings (state_of y) userId)
        = Some (Some True)"
    unfolding y using s1
    by (cases fo; cases jo; cases to)
       (simp_all add: c_def startStream_fetch_done_def startStream_json_done_def
        startStream_request_done_def start_tail_def Let_def step_projections modify_simps)
  with x s1 show ?thesis by (simp add: step_projections c_def)
qed

theorem startStream_hls_forces_highlighting_witness:
  "activeUserStates scenarioD_connected ''u4'' = Some 0
   \<and> outcome_of (startStreamForUser scenarioD_connected ''u4'' None (Some False) (Some Hls))
       = Suspended (AwaitFetch scenarioD_ctx)
   \<and> us_faceHighlightingEnabled
        (heap (state_of (startStreamForUser scenarioD_connected ''u4'' None (Some False) (Some Hls))) 0)
       = Some True
   \<and> map_option ps_faceHighlightingEnabled (persistentUserSettings
        (state_of (startStreamForUser_uninterrupted scenarioD_connected ''u4'' None (Some False)
           (Some Hls) (FetchResponse True ''OK'') (JsonObject None) Resolved 200)) ''u4'')
       = Some (Some True)
   \<and> outcome_of (startStreamForUser_uninterrupted scenarioD_connected ''u4'' None (Some False)
           (Some Hls) (FetchResponse True ''OK'') (JsonObject None) Resolved 200)
       \<noteq> Threw UnsupportedModeCombination"
proof -
  have h: "activeUserStates scenarioD_connected ''u4'' = Some 0"
    by (simp add: scenarioD_connected_def model_defs)
  show ?thesis
    using h startStream_hls_forces_highlighting
      [where streamMode = "Some Hls" and highlightFaces = "Some False" and rtmpUrl = None
         and fo = "FetchResponse True ''OK''" and jo = "JsonObject None" and to = Resolved
         and now = 200, OF h _ refl refl]
    by (simp add: scenarioD_ctx_def streamKey_def replace_at_def)
qed

section \<open>Simulation mode only updates state and settings\<close>

text \<open>
  C5. For a user with a registry entry, \<open>startStreamForUser\<close> with mode \<open>simulation\<close>
  returns at once, without any request to the face recognition server, display text or
  transport command. The state object and the persistent settings both hold the mode
  \<open>simulation\<close> and the requested highlighting flag (as requested, also when it is
  absent), and the stream status of the state object is the one from before the call.
\<close>

theorem startStream_simulation_settings_only:
  assumes "activeUserStates s userId = Some r"
      and "x = startStreamForUser s userId rtmpUrl highlightFaces (Some Simulation)"
  shows "outcome_of x = Returned
    \<and> effects_of x = []
    \<and> activeUserStates (state_of x) userId = Some r
    \<and> us_streamMode (heap (state_of x) r) = Some Simulation
    \<and> us_faceHighlightingEnabled (heap (state_of x) r) = highlightFaces
    \<and> map_option ps_streamMode (persistentUserSettings (state_of x) userId)
        = Some (Some Simulation)
    \<and> map_option ps_faceHighlightingEnabled (persistentUserSettings (state_of x) userId)
        = Some highlightFaces
    \<and> us_streamStatus (heap (state_of x) r) = us_streamStatus (heap s r)"
  using assms
  by (simp add: startStreamForUser_def Let_def step_projections modify_simps
      updatePersistentSettingsForUser_def split: option.split)

theorem startStream_simulation_settings_only_witness:
  "activeUserStates scenarioC_connected ''u3'' = Some 0
   \<and> startStreamForUser_uninterrupted scenarioC_connected ''u3'' None (Some True) (Some Simulation)
        (FetchRejected ''unused'') (JsonRejected ''unused'') Resolved 200
       = (Returned, [], scenarioC_simulation)
   \<and> persistentUserSettings scenarioC_simulation ''u3''
       = Some \<lparr>ps_rtmpUrl = defaultRtmpUrl, ps_streamMode = Some Simulation,
               ps_faceHighlightingEnabled = Some True\<rparr>
   \<and> us_streamMode (heap scenarioC_simulation 0) = Some Simulation
   \<and> us_faceHighlightingEnabled (heap scenarioC_simulation 0) = Some True
   \<and> us_streamStatus (heap scenarioC_simulation 0) = getInitialStreamStatus 100"
proof -
  have h: "activeUserStates scenarioC_connected ''u3'' = Some 0"
    and i: "us_streamStatus (heap scenarioC_connected 0) = getInitialStreamStatus 100"
    by (simp_all add: scenarioC_connected_def model_defs)
  have p: "persistentUserSettings scenarioC_simulation ''u3''
       = Some \<lparr>ps_rtmpUrl = defaultRtmpUrl, ps_streamMode = Some Simulation,
               ps_faceHighlightingEnabled = Some True\<rparr>"
    by (simp add: scenarioC_simulation_def scenarioC_connected_def model_defs)
  have x: "startStreamForUser scenarioC_connected ''u3'' None (Some True) (Some Simulation)
          = (Returned, [], scenarioC_simulation)"
    by (simp add: scenarioC_simulation_def scenarioC_connected_def model_defs)
  show ?thesis
    using h i p x startStream_simulation_settings_only
      [where rtmpUrl = None and highlightFaces = "Some True", OF h refl]
    by (simp add: startStreamForUser_uninterrupted_def step_projections)
qed

section \<open>Status events\<close>

text \<open>
  C6, as the code has it. When a status event whose status is \<open>stopped\<close> arrives for a
  user with a registry entry, the stored stream status is the event with the timestamp
  set to the current time and the type field set to \<open>RTMP_STREAM_STATUS\<close>. Its status
  field is \<open>stopped\<close> and the error details and all remaining properties are those of
  the event. It is the event with only the timestamp replaced exactly when the event's
  type field is \<open>RTMP_STREAM_STATUS\<close> already. The display text shown is
  "Stream has stopped".
\<close>

theorem onStatus_stopped_canonical:
  assumes "activeUserStates s userId = Some r" and "rs_status status = ''stopped''"
  shows "us_streamStatus (heap (snd (onStatus s userId session status now)) r)
           = status\<lparr>rs_timestamp := now, rs_type := RTMP_STREAM_STATUS\<rparr>
    \<and> rs_status (us_streamStatus (heap (snd (onStatus s userId session status now)) r))
        = ''stopped''
    \<and> rs_type (us_streamStatus (heap (snd (onStatus s userId session status now)) r))
        = RTMP_STREAM_STATUS
    \<and> rs_timestamp (us_streamStatus (heap (snd (onStatus s userId session status now)) r))
        = now
    \<and> rs_errorDetails (us_streamStatus (heap (snd (onStatus s userId session status now)) r))
        = rs_errorDetails status
    \<and> rs_rest (us_streamStatus (heap (snd (onStatus s userId session status now)) r))
        = rs_rest status
    \<and> ((us_streamStatus (heap (snd (onStatus s userId session status now)) r)
           = status\<lparr>rs_timestamp := now\<rparr>)
         = (rs_type status = RTMP_STREAM_STATUS))
    \<and> fst (onStatus s userId session status now) = [ShowTextWall session ''Stream has stopped'']"
proof -
  have stored: "us_streamStatus (heap (snd (onStatus s userId session status now)) r)
           = status\<lparr>rs_timestamp := now, rs_type := RTMP_STREAM_STATUS\<rparr>"
    and shown: "fst (onStatus s userId session status now)
           = [ShowTextWall session ''Stream has stopped'']"
    using assms by (simp_all add: onStatus_def Let_def modify_simps)
  have same: "(status\<lparr>rs_timestamp := now, rs_type := RTMP_STREAM_STATUS\<rparr>
                 = status\<lparr>rs_timestamp := now\<rparr>)
              = (rs_type status = RTMP_STREAM_STATUS)"
    by (cases status) auto
  show ?thesis
    unfolding stored using assms(2) shown same by simp
qed

theorem onStatus_stopped_canonical_witness:
  "activeUserStates scenarioC_connected ''u3'' = Some 0
   \<and> rs_status stoppedOtherType = ''stopped''
   \<and> us_streamStatus (heap (snd (onStatus scenarioC_connected ''u3'' 3 stoppedOtherType 170)) 0)
       = \<lparr>rs_type = RTMP_STREAM_STATUS, rs_status = ''stopped'',
          rs_errorDetails = Some ''left over'', rs_timestamp = 170,
          rs_rest = [(''stats'', ''bitrate=2000000'')]\<rparr>
   \<and> fst (onStatus scenarioC_connected ''u3'' 3 stoppedOtherType 170)
       = [ShowTextWall 3 ''Stream has stopped'']"
proof -
  have h: "activeUserStates scenarioC_connected ''u3'' = Some 0"
    by (simp add: scenarioC_connected_def model_defs)
  have i: "rs_status stoppedOtherType = ''stopped''"
    by (simp add: stoppedOtherType_def pushed_def)
  show ?thesis
    using h i onStatus_stopped_canonical [OF h i, of 3 170]
    by (simp add: stoppedOtherType_def pushed_def)
qed

text \<open>
  On the code, for \<open>u3\<close> connected: a \<open>stopped\<close> event whose type field is not
  \<open>RTMP_STREAM_STATUS\<close> is not stored as pushed and stamped; the stored type field is
  \<open>RTMP_STREAM_STATUS\<close>, while the event's is the other type.
\<close>

theorem onStatus_stopped_type_overwritten:
  "activeUserStates scenarioC_connected ''u3'' = Some 0
   \<and> rs_status stoppedOtherType = ''stopped''
   \<and> rs_type stoppedOtherType = OTHER_MESSAGE_TYPE ''stream_status''
   \<and> us_streamStatus (heap (snd (onStatus scenarioC_connected ''u3'' 3 stoppedOtherType 170)) 0)
       \<noteq> stoppedOtherType\<lparr>rs_timestamp := 170\<rparr>
   \<and> rs_type (us_streamStatus
         (heap (snd (onStatus scenarioC_connected ''u3'' 3 stoppedOtherType 170)) 0))
       = RTMP_STREAM_STATUS
   \<and> rs_type (stoppedOtherType\<lparr>rs_timestamp := 170\<rparr>) = OTHER_MESSAGE_TYPE ''stream_status''"
  by (simp add: stoppedOtherType_def pushed_def scenarioC_connected_def onStatus_def
      initialApp_def blankState_def onSession_def modify_def getInitialStreamStatus_def
      defaultRtmpUrl_def Let_def)

text \<open>
  C7. A status event for a user without a registry entry changes nothing: the whole
  state, registry, state objects and persistent settings, is the same afterwards. The
  handler only logs a warning; it has no throwing path.
\<close>

theorem onStatus_no_session_discarded:
  assumes "activeUserStates s userId = None"
  shows "snd (onStatus s userId session status now) = s
    \<and> fst (onStatus s userId session status now) =
        [ConsoleWarn (''Received stream status for a user with no active state object: ''
                      @ userId)]"
  using assms by (simp add: onStatus_def)

theorem onStatus_no_session_discarded_witness:
  "activeUserStates scenarioD_disconnected ''u4'' = None
   \<and> onStatus scenarioD_disconnected ''u4'' 4 (pushed ''active'') 180
       = ([ConsoleWarn ''Received stream status for a user with no active state object: u4''],
          scenarioD_disconnected)"
proof -
  have h: "activeUserStates scenarioD_disconnected ''u4'' = None"
    by (simp add: scenarioD_disconnected_def onDisconnected_def)
  show ?thesis
    using h onStatus_no_session_discarded [OF h, of 4 "pushed ''active''" 180]
    by (simp add: prod_eq_iff)
qed

section \<open>Create, then remove\<close>

text \<open>
  C8. After \<open>onSession\<close> has stored a state for a user and \<open>onDisconnected\<close> has deleted
  it, the registry has no entry for the user. The deletion leaves the persistent
  settings of every user as they are (and so does the creation), and deleting a key
  that is absent leaves the whole state as it is; the handler has no throwing path.
\<close>

theorem create_then_remove:
  "activeUserStates (onDisconnected (snd (onSession s session userId now)) userId) userId = None
   \<and> getHlsUrlForUser (onDisconnected (snd (onSession s session userId now)) userId) userId = None
   \<and> persistentUserSettings (onDisconnected t userId) = persistentUserSettings t
   \<and> persistentUserSettings (onDisconnected (snd (onSession s session userId now)) userId)
       = persistentUserSettings s
   \<and> (activeUserStates t userId = None \<longrightarrow> onDisconnected t userId = t)"
proof (intro conjI impI)
  show "activeUserStates (onDisconnected (snd (onSession s session userId now)) userId) userId
          = None"
    by (simp add: onDisconnected_def)
  show "getHlsUrlForUser (onDisconnected (snd (onSession s session userId now)) userId) userId
          = None"
    by (simp add: getHlsUrlForUser_def onDisconnected_def)
  show "persistentUserSettings (onDisconnected t userId) = persistentUserSettings t"
    by (simp add: onDisconnected_def)
  show "persistentUserSettings (onDisconnected (snd (onSession s session userId now)) userId)
          = persistentUserSettings s"
    by (simp add: onDisconnected_def onSession_def Let_def)
next
  assume "activeUserStates t userId = None"
  then have "(activeUserStates t)(userId := None) = activeUserStates t"
    by (rule fun_upd_idem)
  then show "onDisconnected t userId = t"
    by (simp add: onDisconnected_def)
qed

theorem create_then_remove_witness:
  "activeUserStates scenarioC_disconnected ''u3'' = None
   \<and> onDisconnected scenarioC_disconnected ''u3'' = scenarioC_disconnected
   \<and> persistentUserSettings scenarioC_disconnected = persistentUserSettings scenarioC_simulation
   \<and> activeUserStates (onDisconnected (snd (onSession scenarioC_disconnected 5 ''u3'' 300)) ''u3'')
        ''u3'' = None"
proof -
  have h: "activeUserStates scenarioC_disconnected ''u3'' = None"
    by (simp add: scenarioC_disconnected_def onDisconnected_def)
  have p: "persistentUserSettings scenarioC_disconnected
             = persistentUserSettings scenarioC_simulation"
    unfolding scenarioC_disconnected_def
    using create_then_remove [of scenarioC_simulation 5 "''u3''" 300 scenarioC_simulation]
    by simp
  show ?thesis
    using h p create_then_remove [of scenarioC_disconnected 5 "''u3''" 300 scenarioC_disconnected]
    by simp
qed

section \<open>The status reader\<close>

text \<open>
  C9. \<open>getStreamStatusForUser\<close> never returns the absent value of its declared return
  type. For a user without a registry entry it returns the status built by
  \<open>getInitialStreamStatus\<close> at the time of the call, whose status field is \<open>stopped\<close>.
\<close>

theorem getStreamStatus_always_present:
  "getStreamStatusForUser s userId now \<noteq> None
   \<and> (activeUserStates s userId = None \<longrightarrow>
        getStreamStatusForUser s userId now = Some (getInitialStreamStatus now)
        \<and> rs_status (getInitialStreamStatus now) = ''stopped'')"
  by (simp add: getStreamStatusForUser_def getInitialStreamStatus_def split: option.split)

theorem getStreamStatus_always_present_witness:
  "activeUserStates initialApp ''u2'' = None
   \<and> getStreamStatusForUser initialApp ''u2'' 400
       = Some \<lparr>rs_type = RTMP_STREAM_STATUS, rs_status = ''stopped'', rs_errorDetails = None,
               rs_timestamp = 400, rs_rest = []\<rparr>"
proof -
  have h: "activeUserStates initialApp ''u2'' = None"
    by (simp add: initialApp_def)
  show ?thesis
    using h getStreamStatus_always_present [of initialApp "''u2''" 400]
    by (simp add: getInitialStreamStatus_def)
qed

section \<open>The playback URL outlives the stream\<close>

text \<open>
  C10. Over any sequence of handler runs that contains no connect, no disconnect and no
  continuation of an HLS-mode start receiving the service's answer (so: stops, starts in
  RTMP or simulation mode, settings updates, status events, and all their
  continuations), \<open>getHlsUrlForUser\<close> returns the same value for every user before and
  after. Over any sequence without connect and disconnect, a playback URL that is set
  stays set. So the URL is still reported when the stream is stopped and the mode is no
  longer HLS: in scenario A, after the stream was stopped and restarted in RTMP mode, the
  reader still returns the URL of the first start while the status is \<open>stopped\<close> and
  the mode is \<open>rtmp\<close>.
\<close>

theorem hlsUrl_never_cleared:
  "((\<forall>e\<in>set es. keeps_hlsUrl e) \<longrightarrow>
       getHlsUrlForUser (run es s) userId = getHlsUrlForUser s userId)
   \<and> ((\<forall>e\<in>set es. within_session e) \<and> getHlsUrlForUser s userId \<noteq> None \<longrightarrow>
        getHlsUrlForUser (run es s) userId \<noteq> None)
   \<and> getHlsUrlForUser scenarioA_streaming ''u1'' = Some ''https://svc/hls/u1.m3u8''
   \<and> getHlsUrlForUser (run scenarioA_later scenarioA_streaming) ''u1''
       = Some ''https://svc/hls/u1.m3u8''
   \<and> map_option rs_status (getStreamStatusForUser (run scenarioA_later scenarioA_streaming) ''u1'' 0)
       = Some ''stopped''
   \<and> getStreamModeForUser (run scenarioA_later scenarioA_streaming) ''u1'' = Rtmp"
proof (intro conjI impI)
  assume "\<forall>e\<in>set es. keeps_hlsUrl e"
  then show "getHlsUrlForUser (run es s) userId = getHlsUrlForUser s userId"
    by (simp add: getHlsUrlForUser_def run_keeps_hlsUrl split: option.split)
next
  assume a: "(\<forall>e\<in>set es. within_session e) \<and> getHlsUrlForUser s userId \<noteq> None"
  then obtain r where r: "activeUserStates s userId = Some r" "us_hlsUrl (heap s r) \<noteq> None"
    by (auto simp add: getHlsUrlForUser_def split: option.splits)
  from a r show "getHlsUrlForUser (run es s) userId \<noteq> None"
    using run_within_session [of es s r] by (simp add: getHlsUrlForUser_def)
next
  show "getHlsUrlForUser scenarioA_streaming ''u1'' = Some ''https://svc/hls/u1.m3u8''"
    by (simp add: getHlsUrlForUser_def scenarioA_streaming_def scenarioA_ctx_def pushed_def
        model_defs)
next
  show "getHlsUrlForUser (run scenarioA_later scenarioA_streaming) ''u1''
       = Some ''https://svc/hls/u1.m3u8''"
    by (simp add: getHlsUrlForUser_def scenarioA_streaming_def scenarioA_later_def
        scenarioA_ctx_def pushed_def model_defs)
next
  show "map_option rs_status
          (getStreamStatusForUser (run scenarioA_later scenarioA_streaming) ''u1'' 0)
       = Some ''stopped''"
    by (simp add: getStreamStatusForUser_def scenarioA_streaming_def scenarioA_later_def
        scenarioA_ctx_def pushed_def model_defs)
next
  show "getStreamModeForUser (run scenarioA_later scenarioA_streaming) ''u1'' = Rtmp"
    by (simp add: getStreamModeForUser_def scenarioA_streaming_def scenarioA_later_def
        scenarioA_ctx_def pushed_def model_defs)
qed

theorem hlsUrl_never_cleared_witness:
  "list_all keeps_hlsUrl scenarioA_later
   \<and> list_all within_session scenarioA_later
   \<and> getHlsUrlForUser scenarioA_streaming ''u1'' \<noteq> None
   \<and> getHlsUrlForUser (run scenarioA_later scenarioA_streaming) ''u1''
       = getHlsUrlForUser scenarioA_streaming ''u1''
   \<and> getHlsUrlForUser (run scenarioA_later scenarioA_streaming) ''u1'' \<noteq> None"
proof -
  have k: "\<forall>e\<in>set scenarioA_later. keeps_hlsUrl e"
    and w: "\<forall>e\<in>set scenarioA_later. within_session e"
    by (simp_all add: scenarioA_later_def)
  show ?thesis
    using k w hlsUrl_never_cleared [of scenarioA_later scenarioA_streaming "''u1''"]
    by (simp add: list_all_iff)
qed

section \<open>The stream key is not injective\<close>

text \<open>
  C3. The stream key is the same expression at its three sites, so it is deterministic,
  but it is not collision-free: the user ids \<open>a@b\<close> and \<open>a_b\<close> are distinct and both
  get the key \<open>user_a_b\<close>.
\<close>

theorem streamKey_collision:
  "streamKey ''a@b'' = streamKey ''a_b''
   \<and> streamKey ''a@b'' = ''user_a_b''
   \<and> ''a@b'' \<noteq> ''a_b''
   \<and> faces_route_streamKey ''a@b'' = faces_route_streamKey ''a_b''
   \<and> faces_rename_route_streamKey ''a@b'' = faces_rename_route_streamKey ''a_b''"
  by (simp add: streamKey_def faces_route_streamKey_def faces_rename_route_streamKey_def
      replace_at_def)

end
